theory Spec2Isabelle
  imports Complex_Main
begin

section \<open>Numbers\<close>

text \<open>
  A JavaScript number is read as a real number: the arithmetic of the sources is taken
  exactly, without rounding and without the non-finite values (\<open>NaN\<close>, the infinities).
  The sources divide by a variable quantity in two places, the hour angle of
  \<open>approxLocalHourAngle\<close> and the correction of \<open>sunRiseSetCorrection\<close>; the divisors
  vanish at the poles, where JavaScript yields a non-finite quotient and HOL yields
  \<open>x / 0 = 0\<close>. The callers are to keep the latitude strictly inside (-90, 90). A theorem
  that speaks of the value of such a quotient has the hypothesis that its divisor is not
  zero; the theorems on the control flow hold whatever the quotient is.
\<close>

section \<open>auxMath.js\<close>

text \<open>
  \<open>auxMath.js\<close> is imported by both source files and is not among them.
\<close>

definition deg2rad :: "real \<Rightarrow> real" where
  \<comment> \<open>Modelled from the spec: auxMath.js is missing; "degree-based trigonometry" needs the
      conversion of degrees to radians.\<close>
  "deg2rad x = x * pi / 180"

definition rad2deg :: "real \<Rightarrow> real" where
  \<comment> \<open>Modelled from the spec: auxMath.js is missing; inverse trigonometry "returning degrees".\<close>
  "rad2deg x = x * 180 / pi"

definition sind :: "real \<Rightarrow> real" where
  \<comment> \<open>Modelled from the spec: auxMath.js is missing; sine "taking degrees".\<close>
  "sind x = sin (deg2rad x)"

definition cosd :: "real \<Rightarrow> real" where
  \<comment> \<open>Modelled from the spec: auxMath.js is missing; cosine "taking degrees".\<close>
  "cosd x = cos (deg2rad x)"

definition reduceAngle :: "real \<Rightarrow> real" where
  \<comment> \<open>Modelled from the spec: auxMath.js is missing; "x mod 360 folded into [0,360)".\<close>
  "reduceAngle x = x - 360 * of_int \<lfloor>x / 360\<rfloor>"

definition polynomial :: "real \<Rightarrow> real list \<Rightarrow> real" where
  \<comment> \<open>Modelled from the spec: auxMath.js is missing; "evaluates the sum of coeffs[i] * x^i
      with coeffs ordered lowest-degree first".\<close>
  "polynomial x coeffs = (\<Sum>i\<leftarrow>[0..<length coeffs]. coeffs ! i * x ^ i)"

definition recenter :: "real \<Rightarrow> real \<Rightarrow> real" where
  \<comment> \<open>Modelled from the spec: auxMath.js is missing; the pre-step of interpolateFromThree
      that "re-centers y1/y3 relative to y2 by +/-360 degrees" for a reduced angle that may
      have wrapped.\<close>
  "recenter y2 y =
     (if y - y2 > 180 then y - 360 else if y - y2 < - 180 then y + 360 else y)"

definition interpolateFromThree :: "real \<Rightarrow> real \<Rightarrow> real \<Rightarrow> real \<Rightarrow> bool \<Rightarrow> real" where
  \<comment> \<open>Modelled from the spec: auxMath.js is missing; "3-point quadratic interpolation at
      fractional offset n" through the samples at offsets -1, 0 and 1, after the optional
      pre-step. The fifth argument is the optional flag \<open>normalize\<close>, False when the
      caller leaves it out.\<close>
  "interpolateFromThree y1 y2 y3 n normalizeFlag =
     (let y1' = (if normalizeFlag then recenter y2 y1 else y1);
          y3' = (if normalizeFlag then recenter y2 y3 else y3);
          a = y2 - y1';
          b = y3' - y2;
          c = b - a
      in y2 + (n / 2) * (a + b + n * c))"

definition atan2 :: "real \<Rightarrow> real \<Rightarrow> real" where
  \<comment> \<open>\<open>Math.atan2(y, x)\<close>: the angle of the point \<open>(x, y)\<close>, in \<open>(-pi, pi]\<close>.\<close>
  "atan2 y x =
     (if x > 0 then arctan (y / x)
      else if x < 0 \<and> y \<ge> 0 then arctan (y / x) + pi
      else if x < 0 then arctan (y / x) - pi
      else if y > 0 then pi / 2
      else if y < 0 then - (pi / 2)
      else 0)"

section \<open>timeConversions.js\<close>

text \<open>
  \<open>timeConversions.js\<close> is not among the sources, and its conversions are external to
  the solvers: \<open>truePhase\<close> takes \<open>kToT\<close> as its first argument, and the solar solver takes
  \<open>DeltaT\<close> and \<open>datetimeToT\<close> with its other collaborators.
\<close>

section \<open>moonPhases.js\<close>

definition meanPhase :: "real \<Rightarrow> real \<Rightarrow> real" where
  "meanPhase T k =
     2451550.09766 + 29.530588861 * k + 0.00015437 * T * T - 0.000000150 * T * T * T +
       0.00000000073 * T * T * T * T"

definition sunMeanAnomalyK :: "real \<Rightarrow> real \<Rightarrow> real" where
  \<comment> \<open>\<open>sunMeanAnomaly\<close> of moonPhases.js.\<close>
  "sunMeanAnomalyK T k =
     2.5534 + 29.10535670 * k - 0.0000014 * T * T - 0.00000011 * T * T * T"

definition moonMeanAnomalyK :: "real \<Rightarrow> real \<Rightarrow> real" where
  \<comment> \<open>\<open>moonMeanAnomaly\<close> of moonPhases.js.\<close>
  "moonMeanAnomalyK T k =
     201.5643 + 385.81693528 * k + 0.0107582 * T * T + 0.00001238 * T * T * T -
       0.000000058 * T * T * T * T"

definition moonArgumentOfLatitudeK :: "real \<Rightarrow> real \<Rightarrow> real" where
  \<comment> \<open>\<open>moonArgumentOfLatitude\<close> of moonPhases.js.\<close>
  "moonArgumentOfLatitudeK T k =
     160.7108 + 390.67050284 * k - 0.0016118 * T * T - 0.00000227 * T * T * T +
       0.000000011 * T * T * T * T"

definition moonAscendingNodeLongitudeK :: "real \<Rightarrow> real \<Rightarrow> real" where
  \<comment> \<open>\<open>moonAscendingNodeLongitude\<close> of moonPhases.js.\<close>
  "moonAscendingNodeLongitudeK T k =
     124.7746 - 1.56375588 * k + 0.0020672 * T * T + 0.00000215 * T * T * T"

definition eccentricityCorrection :: "real \<Rightarrow> real" where
  "eccentricityCorrection T = 1 - 0.002516 * T - 0.0000074 * T * T"

definition planetaryArguments :: "real \<Rightarrow> real \<Rightarrow> real list" where
  "planetaryArguments T k =
     [0,
      299.77 + 0.107408 * k - 0.009173 * T * T,
      251.88 + 0.016321 * k,
      251.83 + 26.651886 * k,
      349.42 + 36.412478 * k,
      84.66 + 18.206239 * k,
      141.74 + 53.303771 * k,
      207.14 + 2.453732 * k,
      154.84 + 7.306860 * k,
      34.52 + 27.261239 * k,
      207.19 + 0.121824 * k,
      291.34 + 1.844379 * k,
      161.72 + 24.198154 * k,
      239.56 + 25.513099 * k,
      331.55 + 3.592518 * k]"

definition commonCorrections :: "real list \<Rightarrow> real" where
  \<comment> \<open>Reads \<open>A[1]\<close> to \<open>A[14]\<close>; its one caller passes the 15 planetary arguments.\<close>
  "commonCorrections A =
     0.000325 * sind (A ! 1) +
     0.000165 * sind (A ! 2) +
     0.000164 * sind (A ! 3) +
     0.000126 * sind (A ! 4) +
     0.000110 * sind (A ! 5) +
     0.000062 * sind (A ! 6) +
     0.000060 * sind (A ! 7) +
     0.000056 * sind (A ! 8) +
     0.000047 * sind (A ! 9) +
     0.000042 * sind (A ! 10) +
     0.000040 * sind (A ! 11) +
     0.000037 * sind (A ! 12) +
     0.000035 * sind (A ! 13) +
     0.000023 * sind (A ! 14)"

definition newFullSeries :: "real \<Rightarrow> real \<Rightarrow> real \<Rightarrow> real \<Rightarrow> real \<Rightarrow> real" where
  \<comment> \<open>The initial value of \<open>DeltaJDE\<close> in \<open>newMoonFullMoonCorrections\<close>: 18 sine terms.\<close>
  "newFullSeries E M MPrime F Omega =
     - 0.00111 * sind (MPrime - 2 * F) -
     0.00057 * sind (MPrime + 2 * F) +
     0.00056 * E * sind (2 * MPrime + M) -
     0.00042 * sind (3 * MPrime) +
     0.00042 * E * sind (M + 2 * F) +
     0.00038 * E * sind (M - 2 * F) -
     0.00024 * E * sind (2 * MPrime - M) -
     0.00017 * sind Omega -
     0.00007 * sind (MPrime + 2 * M) +
     0.00004 * sind (2 * MPrime - 2 * F) +
     0.00004 * sind (3 * M) +
     0.00003 * sind (MPrime + M - 2 * F) +
     0.00003 * sind (2 * MPrime + 2 * F) -
     0.00003 * sind (MPrime + M + 2 * F) +
     0.00003 * sind (MPrime - M + 2 * F) -
     0.00002 * sind (MPrime - M - 2 * F) -
     0.00002 * sind (3 * MPrime + M) +
     0.00002 * sind (4 * MPrime)"

definition newMoonSeries :: "real \<Rightarrow> real \<Rightarrow> real \<Rightarrow> real \<Rightarrow> real" where
  \<comment> \<open>The terms added in \<open>newMoonFullMoonCorrections\<close> when \<open>phase === 0\<close>.\<close>
  "newMoonSeries E M MPrime F =
     - 0.40720 * sind MPrime +
     0.17241 * E * sind M +
     0.01608 * sind (2 * MPrime) +
     0.01039 * sind (2 * F) +
     0.00739 * E * sind (MPrime - M) -
     0.00514 * E * sind (MPrime + M) +
     0.00208 * E * E * sind (2 * M)"

definition fullMoonSeries :: "real \<Rightarrow> real \<Rightarrow> real \<Rightarrow> real \<Rightarrow> real" where
  \<comment> \<open>The terms added in \<open>newMoonFullMoonCorrections\<close> when \<open>phase === 2\<close>.\<close>
  "fullMoonSeries E M MPrime F =
     - 0.40614 * sind MPrime +
     0.17302 * E * sind M +
     0.01614 * sind (2 * MPrime) +
     0.01043 * sind (2 * F) +
     0.00734 * E * sind (MPrime - M) -
     0.00515 * E * sind (MPrime + M) +
     0.00209 * E * E * sind (2 * M)"

definition newMoonFullMoonCorrections ::
  "real \<Rightarrow> real \<Rightarrow> real \<Rightarrow> real \<Rightarrow> real \<Rightarrow> real \<Rightarrow> real" where
  "newMoonFullMoonCorrections E M MPrime F Omega phase =
     (let DeltaJDE = newFullSeries E M MPrime F Omega
      in if phase = 0 then DeltaJDE + newMoonSeries E M MPrime F
         else if phase = 2 then DeltaJDE + fullMoonSeries E M MPrime F
         else DeltaJDE)"

definition quarterSeries :: "real \<Rightarrow> real \<Rightarrow> real \<Rightarrow> real \<Rightarrow> real \<Rightarrow> real" where
  \<comment> \<open>The initial value of \<open>DeltaJDE\<close> in \<open>quarterCorrections\<close>: 25 sine terms.\<close>
  "quarterSeries E M MPrime F Omega =
     - 0.62801 * sind MPrime +
     0.17172 * E * sind M -
     0.01183 * E * sind (MPrime + M) +
     0.00862 * sind (2 * MPrime) +
     0.00804 * sind (2 * F) +
     0.00454 * E * sind (MPrime - M) +
     0.00204 * E * E * sind (2 * M) -
     0.00180 * sind (MPrime - 2 * F) -
     0.00070 * sind (MPrime + 2 * F) -
     0.00040 * sind (3 * MPrime) -
     0.00034 * E * sind (2 * MPrime - M) +
     0.00032 * E * sind (M + 2 * F) +
     0.00032 * E * sind (M - 2 * F) -
     0.00028 * E * E * sind (MPrime + 2 * M) +
     0.00027 * E * sind (2 * MPrime + M) -
     0.00017 * sind Omega -
     0.00005 * sind (MPrime - M - 2 * F) +
     0.00004 * sind (2 * MPrime + 2 * F) -
     0.00004 * sind (MPrime + M + 2 * F) +
     0.00004 * sind (MPrime - 2 * M) +
     0.00003 * sind (MPrime + M - 2 * F) +
     0.00003 * sind (3 * M) +
     0.00002 * sind (2 * MPrime - 2 * F) +
     0.00002 * sind (MPrime - M + 2 * F) -
     0.00002 * sind (3 * MPrime + M)"

definition quarterW :: "real \<Rightarrow> real \<Rightarrow> real \<Rightarrow> real \<Rightarrow> real" where
  \<comment> \<open>The constant \<open>W\<close> of \<open>quarterCorrections\<close>: 0.00306 and five cosine terms.\<close>
  "quarterW E M MPrime F =
     0.00306 -
     0.00038 * E * cosd M +
     0.00026 * cosd MPrime -
     0.00002 * cosd (MPrime - M) +
     0.00002 * cosd (MPrime + M) +
     0.00002 * cosd (2 * F)"

definition quarterCorrections ::
  "real \<Rightarrow> real \<Rightarrow> real \<Rightarrow> real \<Rightarrow> real \<Rightarrow> real \<Rightarrow> real" where
  "quarterCorrections E M MPrime F Omega phase =
     (let DeltaJDE = quarterSeries E M MPrime F Omega;
          W = quarterW E M MPrime F
      in if phase = 1 then DeltaJDE + W
         else if phase = 3 then DeltaJDE - W
         else DeltaJDE)"

definition truePhase :: "(real \<Rightarrow> real) \<Rightarrow> real \<Rightarrow> real \<Rightarrow> real" where
  \<comment> \<open>The first argument is \<open>timeConversions.kToT\<close>. The parameter \<open>k\<close> is reassigned
      in the first line of the source; \<open>k'\<close> is its new value.\<close>
  "truePhase kToT k phase =
     (let k' = k + phase / 4;
          T = kToT k';
          E = eccentricityCorrection T;
          JDE = meanPhase T k';
          M = sunMeanAnomalyK T k';
          MPrime = moonMeanAnomalyK T k';
          F = moonArgumentOfLatitudeK T k';
          Omega = moonAscendingNodeLongitudeK T k';
          A = planetaryArguments T k';
          DeltaJDE0 = 0;
          DeltaJDE1 =
            (if phase = 0 \<or> phase = 2
               then DeltaJDE0 + newMoonFullMoonCorrections E M MPrime F Omega phase
             else if phase = 1 \<or> phase = 3
               then DeltaJDE0 + quarterCorrections E M MPrime F Omega phase
             else DeltaJDE0);
          DeltaJDE2 = DeltaJDE1 + commonCorrections A
      in JDE + DeltaJDE2)"

section \<open>Data of the solar solver\<close>

text \<open>
  \<open>constants.js\<close> is not among the sources: its tables are a parameter of every function
  that reads them. The six polynomial tables are coefficient lists, lowest degree first;
  the nutation table is read as \<open>nutations[i][j]\<close> for \<open>i < 63\<close> and \<open>j < 9\<close>.
\<close>

record constants =
  const_meanObliquityOfEcliptic :: "real list"
  const_nutations :: "nat \<Rightarrow> nat \<Rightarrow> real"
  const_moonArgumentOfLatitude :: "real list"
  const_moonAscendingNodeLongitude :: "real list"
  const_moonMeanAnomaly :: "real list"
  const_moonMeanElongation :: "real list"
  const_sunMeanAnomaly :: "real list"
  const_sunMeanLongitude :: "real list"

text \<open>
  The two module-level flags that \<open>sunTimes.js\<close> imports from \<open>index.js\<close>
  (the interface \<open>MeeusSunMoonSettings\<close>). They are variables of that module, set by the
  caller between calls; here they are an argument of the functions that read them.
\<close>

record settings =
  roundToNearestMinute :: bool
  returnTimeForNoEventCase :: bool

text \<open>
  A \<open>DateTime\<close> is an instant (milliseconds since the epoch, Luxon's \<open>ts\<close>) in a time
  zone, with the optional property \<open>errorCode\<close> of the class extension.
\<close>

record DateTime =
  ts :: int
  zone :: string
  errorCode :: "string option"

text \<open>
  The external collaborators: \<open>timeConversions.DeltaT\<close> and
  \<open>timeConversions.datetimeToT\<close>, and the calendar arithmetic of Luxon, which depends on
  the time-zone data: the getters \<open>offset\<close> (minutes) and \<open>isInDST\<close>,
  \<open>set({ hour, minute, second })\<close> and \<open>setZone('UTC', { keepLocalTime: true })\<close>.
\<close>

record collaborators =
  tc_DeltaT :: "DateTime \<Rightarrow> real"
  tc_datetimeToT :: "DateTime \<Rightarrow> real"
  lx_offset :: "DateTime \<Rightarrow> int"
  lx_isInDST :: "DateTime \<Rightarrow> bool"
  lx_set :: "DateTime \<Rightarrow> int \<Rightarrow> int \<Rightarrow> int \<Rightarrow> DateTime"
  lx_keepLocalTimeUTC :: "DateTime \<Rightarrow> DateTime"

text \<open>
  Luxon's arithmetic on instants needs no time-zone data: \<open>plus\<close> and \<open>minus\<close> with a
  number of seconds or minutes move \<open>ts\<close>, \<open>setZone\<close> keeps \<open>ts\<close>, and
  \<open>set({ second: 0 })\<close> on a \<open>DateTime\<close> in the zone UTC clears the seconds of the
  minute and keeps the milliseconds. Each of them returns a new object, which has no
  \<open>errorCode\<close>.
\<close>

definition plusSeconds :: "DateTime \<Rightarrow> int \<Rightarrow> DateTime" where
  "plusSeconds d s = \<lparr>ts = ts d + 1000 * s, zone = zone d, errorCode = None\<rparr>"

definition minusSeconds :: "DateTime \<Rightarrow> int \<Rightarrow> DateTime" where
  "minusSeconds d s = \<lparr>ts = ts d - 1000 * s, zone = zone d, errorCode = None\<rparr>"

definition plusMinutes :: "DateTime \<Rightarrow> int \<Rightarrow> DateTime" where
  "plusMinutes d n = \<lparr>ts = ts d + 60000 * n, zone = zone d, errorCode = None\<rparr>"

definition setSecondZeroUTC :: "DateTime \<Rightarrow> DateTime" where
  "setSecondZeroUTC d =
     \<lparr>ts = ts d - 1000 * ((ts d div 1000) mod 60), zone = zone d, errorCode = None\<rparr>"

definition setZone :: "DateTime \<Rightarrow> string \<Rightarrow> DateTime" where
  "setZone d z = \<lparr>ts = ts d, zone = z, errorCode = None\<rparr>"

text \<open>What a call of \<open>sunRiseSet\<close> does: throw a string, return \<open>false\<close>, or return a time.\<close>

datatype outcome = Throws string | ReturnsFalse | ReturnsTime DateTime

text \<open>What \<open>handleNoEventCase\<close> returns: a time, or its argument \<open>errorCode\<close>.\<close>

datatype fallback = FallbackTime DateTime | FallbackCode "string option"

section \<open>sunTimes.js: the position of the sun\<close>

definition sunMeanLongitude :: "constants \<Rightarrow> real \<Rightarrow> real" where
  "sunMeanLongitude c T = reduceAngle (polynomial T (const_sunMeanLongitude c))"

definition sunMeanAnomaly :: "constants \<Rightarrow> real \<Rightarrow> real" where
  "sunMeanAnomaly c T = reduceAngle (polynomial T (const_sunMeanAnomaly c))"

definition moonMeanElongation :: "constants \<Rightarrow> real \<Rightarrow> real" where
  "moonMeanElongation c T = reduceAngle (polynomial T (const_moonMeanElongation c))"

definition moonMeanAnomaly :: "constants \<Rightarrow> real \<Rightarrow> real" where
  "moonMeanAnomaly c T = reduceAngle (polynomial T (const_moonMeanAnomaly c))"

definition moonAscendingNodeLongitude :: "constants \<Rightarrow> real \<Rightarrow> real" where
  "moonAscendingNodeLongitude c T =
     reduceAngle (polynomial T (const_moonAscendingNodeLongitude c))"

definition moonArgumentOfLatitude :: "constants \<Rightarrow> real \<Rightarrow> real" where
  "moonArgumentOfLatitude c T = reduceAngle (polynomial T (const_moonArgumentOfLatitude c))"

definition nutationInObliquity :: "constants \<Rightarrow> real \<Rightarrow> real" where
  \<comment> \<open>The \<open>for\<close> loop over \<open>i = 0, ..., 62\<close> is the fold; \<open>nut\<close> is \<open>constants.nutations\<close>.\<close>
  "nutationInObliquity c T =
     (let D = moonMeanElongation c T;
          M = sunMeanAnomaly c T;
          MPrime = moonMeanAnomaly c T;
          F = moonArgumentOfLatitude c T;
          Omega = moonAscendingNodeLongitude c T;
          nut = const_nutations c;
          DeltaEpsilon =
            foldl (\<lambda>DeltaEpsilon i.
                let cosArg = nut i 0 * D + nut i 1 * M + nut i 2 * MPrime +
                             nut i 3 * F + nut i 4 * Omega
                in DeltaEpsilon + (nut i 7 + nut i 8 * T) * cosd cosArg)
              0 [0..<63]
      in DeltaEpsilon / 36000000)"

definition nutationInLongitude :: "constants \<Rightarrow> real \<Rightarrow> real" where
  "nutationInLongitude c T =
     (let D = moonMeanElongation c T;
          M = sunMeanAnomaly c T;
          MPrime = moonMeanAnomaly c T;
          F = moonArgumentOfLatitude c T;
          Omega = moonAscendingNodeLongitude c T;
          nut = const_nutations c;
          DeltaPsi =
            foldl (\<lambda>DeltaPsi i.
                let sineArg = nut i 0 * D + nut i 1 * M + nut i 2 * MPrime +
                              nut i 3 * F + nut i 4 * Omega
                in DeltaPsi + (nut i 5 + nut i 6 * T) * sind sineArg)
              0 [0..<63]
      in DeltaPsi / 36000000)"

definition sunEquationOfCenter :: "constants \<Rightarrow> real \<Rightarrow> real" where
  "sunEquationOfCenter c T =
     (let M = sunMeanAnomaly c T
      in (1.914602 - 0.004817 * T - 0.000014 * T * T) * sind M +
         (0.019993 - 0.000101 * T) * sind (2 * M) + 0.000290 * sind (3 * M))"

definition sunTrueLongitude :: "constants \<Rightarrow> real \<Rightarrow> real" where
  "sunTrueLongitude c T =
     (let L0 = sunMeanLongitude c T;
          C = sunEquationOfCenter c T
      in L0 + C)"

definition sunApparentLongitude :: "constants \<Rightarrow> real \<Rightarrow> real" where
  "sunApparentLongitude c T =
     (let Sol = sunTrueLongitude c T;
          Omega = moonAscendingNodeLongitude c T
      in Sol - 0.00569 - 0.00478 * sind Omega)"

definition meanObliquityOfEcliptic :: "constants \<Rightarrow> real \<Rightarrow> real" where
  "meanObliquityOfEcliptic c T =
     (let U = T / 100
      in polynomial U (const_meanObliquityOfEcliptic c))"

definition trueObliquityOfEcliptic :: "constants \<Rightarrow> real \<Rightarrow> real" where
  "trueObliquityOfEcliptic c T =
     (let epsilon0 = meanObliquityOfEcliptic c T;
          DeltaEpsilon = nutationInObliquity c T
      in epsilon0 + DeltaEpsilon)"

definition meanSiderealTimeGreenwich :: "real \<Rightarrow> real" where
  "meanSiderealTimeGreenwich T =
     (let JD2000 = T * 36525
      in 280.46061837 + 360.98564736629 * JD2000 + 0.000387933 * T * T -
         T * T * T / 38710000)"

definition apparentSiderealTimeGreenwich :: "constants \<Rightarrow> real \<Rightarrow> real" where
  "apparentSiderealTimeGreenwich c T =
     (let theta0 = meanSiderealTimeGreenwich T;
          epsilon = trueObliquityOfEcliptic c T;
          DeltaPsi = nutationInLongitude c T;
          theta = theta0 + DeltaPsi * cosd epsilon
      in reduceAngle theta)"

definition sunApparentDeclination :: "constants \<Rightarrow> real \<Rightarrow> real" where
  "sunApparentDeclination c T =
     (let Omega = moonAscendingNodeLongitude c T;
          epsilon = trueObliquityOfEcliptic c T + 0.00256 * cosd Omega;
          lambda = sunApparentLongitude c T
      in rad2deg (arcsin (sind epsilon * sind lambda)))"

definition sunApparentRightAscension :: "constants \<Rightarrow> real \<Rightarrow> real" where
  "sunApparentRightAscension c T =
     (let Omega = moonAscendingNodeLongitude c T;
          epsilon = trueObliquityOfEcliptic c T + 0.00256 * cosd Omega;
          lambda = sunApparentLongitude c T;
          alpha = rad2deg (atan2 (cosd epsilon * sind lambda) (cosd lambda))
      in reduceAngle alpha)"

definition interpolatedDec :: "constants \<Rightarrow> real \<Rightarrow> real \<Rightarrow> real" where
  "interpolatedDec c T n =
     (let delta1 = sunApparentDeclination c (T - (1 / 36525));
          delta2 = sunApparentDeclination c T;
          delta3 = sunApparentDeclination c (T + (1 / 36525));
          delta = interpolateFromThree delta1 delta2 delta3 n False
      in reduceAngle delta)"

definition interpolatedRa :: "constants \<Rightarrow> real \<Rightarrow> real \<Rightarrow> real" where
  "interpolatedRa c T n =
     (let alpha1 = sunApparentRightAscension c (T - (1 / 36525));
          alpha2 = sunApparentRightAscension c T;
          alpha3 = sunApparentRightAscension c (T + (1 / 36525));
          alpha = interpolateFromThree alpha1 alpha2 alpha3 n True
      in reduceAngle alpha)"

definition altitude :: "real \<Rightarrow> real \<Rightarrow> real \<Rightarrow> real" where
  "altitude phi delta H =
     rad2deg (arcsin (sind phi * sind delta + cosd phi * cosd delta * cosd H))"

definition localHourAngle :: "real \<Rightarrow> real \<Rightarrow> real \<Rightarrow> real" where
  "localHourAngle theta0 L alpha =
     (let H = reduceAngle (theta0 + L - alpha)
      in if H > 180 then H - 360 else H)"

section \<open>sunTimes.js: the event time solver\<close>

definition noEventCodes_SUN_HIGH :: string where
  "noEventCodes_SUN_HIGH = ''SUN_HIGH''"

definition noEventCodes_SUN_LOW :: string where
  "noEventCodes_SUN_LOW = ''SUN_LOW''"

definition approxLocalHourAngle :: "real \<Rightarrow> real \<Rightarrow> real \<Rightarrow> string + real" where
  \<comment> \<open>\<open>Inl\<close> is the thrown string.\<close>
  "approxLocalHourAngle phi delta offset =
     (let cosH0 = (sind (- offset) - sind phi * sind delta) / (cosd phi * cosd delta)
      in if cosH0 < - 1 then Inl noEventCodes_SUN_HIGH
         else if cosH0 > 1 then Inl noEventCodes_SUN_LOW
         else Inr (rad2deg (arccos cosH0)))"

definition normalizeM :: "real \<Rightarrow> int \<Rightarrow> real" where
  "normalizeM m utcOffset =
     (let localM = m + of_int utcOffset / 1440
      in if localM < 0 then m + 1
         else if localM > 1 then m - 1
         else m)"

definition sunTransitCorrection ::
  "constants \<Rightarrow> real \<Rightarrow> real \<Rightarrow> real \<Rightarrow> real \<Rightarrow> real \<Rightarrow> real" where
  "sunTransitCorrection c T Theta0 DeltaT L m =
     (let theta0 = Theta0 + 360.985647 * m;
          n = m + DeltaT / 864000;
          alpha = interpolatedRa c T n;
          H = localHourAngle theta0 L alpha
      in - H / 360)"

definition sunRiseSetCorrection ::
  "constants \<Rightarrow> real \<Rightarrow> real \<Rightarrow> real \<Rightarrow> real \<Rightarrow> real \<Rightarrow> real \<Rightarrow> real \<Rightarrow> real" where
  "sunRiseSetCorrection c T Theta0 DeltaT phi L m offset =
     (let theta0 = Theta0 + 360.985647 * m;
          n = m + DeltaT / 864000;
          alpha = interpolatedRa c T n;
          delta = interpolatedDec c T n;
          H = localHourAngle theta0 L alpha;
          h = altitude phi delta H
      in (h + offset) / (360 * cosd delta * cosd phi * sind H))"

text \<open>
  The \<open>while\<close> loop of \<open>sunRiseSet\<close> (lines 70 to 77), on its three variables \<open>m\<close>,
  \<open>DeltaM\<close> and \<open>counter\<close>: the result is their values when the loop is left.
\<close>

function riseSetLoop ::
  "constants \<Rightarrow> real \<Rightarrow> real \<Rightarrow> real \<Rightarrow> real \<Rightarrow> real \<Rightarrow> real \<Rightarrow>
     real \<Rightarrow> real \<Rightarrow> nat \<Rightarrow> real \<times> real \<times> nat" where
  "riseSetLoop c T Theta0 DeltaT phi L offset m DeltaM counter =
     (if \<bar>DeltaM\<bar> > 0.0001 \<and> counter < 3
      then let DeltaM' = sunRiseSetCorrection c T Theta0 DeltaT phi L m offset
           in riseSetLoop c T Theta0 DeltaT phi L offset (m + DeltaM') DeltaM' (counter + 1)
      else (m, DeltaM, counter))"
  by pat_completeness auto
termination
  by (relation "measure (\<lambda>(c, T, Theta0, DeltaT, phi, L, offset, m, DeltaM, counter). 3 - counter)")
     auto

declare riseSetLoop.simps [simp del]

text \<open>
  The end of \<open>sunRiseSet\<close> (lines 78 to 86) and of \<open>sunTransit\<close> (lines 27 to 31): from the
  instant of 0h UTC and the day fraction \<open>m\<close> to the returned time.
\<close>

definition riseSetLocalize :: "settings \<Rightarrow> DateTime \<Rightarrow> string \<Rightarrow> real \<Rightarrow> DateTime" where
  "riseSetLocalize cfg suntime timezone m =
     (let suntime1 =
            (if m > 0 then plusSeconds suntime \<lfloor>m * 3600 * 24 + 0.5\<rfloor>
             else minusSeconds suntime \<lfloor>m * 3600 * 24 + 0.5\<rfloor>);
          suntime2 =
            (if roundToNearestMinute cfg then setSecondZeroUTC (plusSeconds suntime1 30)
             else suntime1)
      in setZone suntime2 timezone)"

definition transitLocalize :: "settings \<Rightarrow> DateTime \<Rightarrow> string \<Rightarrow> real \<Rightarrow> DateTime" where
  "transitLocalize cfg transit timezone m =
     (let transit1 = plusSeconds transit \<lfloor>m * 3600 * 24 + 0.5\<rfloor>;
          transit2 =
            (if roundToNearestMinute cfg then setSecondZeroUTC (plusSeconds transit1 30)
             else transit1)
      in setZone transit2 timezone)"

definition sunTransit ::
  "settings \<Rightarrow> constants \<Rightarrow> collaborators \<Rightarrow> DateTime \<Rightarrow> real \<Rightarrow> DateTime" where
  "sunTransit cfg c ex datetime L =
     (let timezone = zone datetime;
          transit = lx_keepLocalTimeUTC ex (lx_set ex datetime 0 0 0);
          DeltaT = tc_DeltaT ex transit;
          T = tc_datetimeToT ex transit;
          Theta0 = apparentSiderealTimeGreenwich c T;
          TD = T - (DeltaT / (3600 * 24 * 36525));
          alpha = sunApparentRightAscension c TD;
          m0 = (alpha - L - Theta0) / 360;
          m1 = normalizeM m0 (lx_offset ex datetime);
          DeltaM = sunTransitCorrection c T Theta0 DeltaT L m1;
          m2 = m1 + DeltaM
      in transitLocalize cfg transit timezone m2)"

text \<open>
  \<open>sunRiseSetRun\<close> is the body of \<open>sunRiseSet\<close>. Its second result is the number of
  evaluations of \<open>sunRiseSetCorrection\<close>: the value of \<open>counter\<close> after the loop, and 0
  when the call ends before the loop. \<open>rest\<close> is the source from line 70 on, for the
  \<open>m\<close> of line 64 or 66. The last argument is the optional \<open>offset\<close>, whose default is
  50/60.
\<close>

definition sunRiseSetRun ::
  "settings \<Rightarrow> constants \<Rightarrow> collaborators \<Rightarrow> DateTime \<Rightarrow> real \<Rightarrow> real \<Rightarrow> string \<Rightarrow>
     real option \<Rightarrow> outcome \<times> nat" where
  "sunRiseSetRun cfg c ex datetime phi L flag offsetArg =
     (let offset = (case offsetArg of None \<Rightarrow> 50 / 60 | Some x \<Rightarrow> x);
          timezone = zone datetime;
          suntime = lx_keepLocalTimeUTC ex (lx_set ex datetime 0 0 0);
          DeltaT = tc_DeltaT ex suntime;
          T = tc_datetimeToT ex suntime;
          Theta0 = apparentSiderealTimeGreenwich c T;
          TD = T - (DeltaT / (3600 * 24 * 36525));
          alpha = sunApparentRightAscension c TD;
          delta = sunApparentDeclination c TD
      in case approxLocalHourAngle phi delta offset of
           Inl thrown \<Rightarrow> (Throws thrown, 0)
         | Inr H0 \<Rightarrow>
             (let m0 = (alpha - L - Theta0) / 360;
                  m0' = normalizeM m0 (lx_offset ex datetime);
                  rest = (\<lambda>m.
                    let (m', DeltaM, counter) =
                          riseSetLoop c T Theta0 DeltaT phi L offset m 1 0
                    in (ReturnsTime (riseSetLocalize cfg suntime timezone m'), counter))
              in if flag = ''RISE'' then rest (m0' - H0 / 360)
                 else if flag = ''SET'' then rest (m0' + H0 / 360)
                 else (ReturnsFalse, 0)))"

definition sunRiseSet ::
  "settings \<Rightarrow> constants \<Rightarrow> collaborators \<Rightarrow> DateTime \<Rightarrow> real \<Rightarrow> real \<Rightarrow> string \<Rightarrow>
     real option \<Rightarrow> outcome" where
  "sunRiseSet cfg c ex datetime phi L flag offsetArg =
     fst (sunRiseSetRun cfg c ex datetime phi L flag offsetArg)"

definition truthy :: "string option \<Rightarrow> bool" where
  \<comment> \<open>The test \<open>if (errorCode)\<close> on a value of type \<open>string|undefined\<close>.\<close>
  "truthy v = (case v of None \<Rightarrow> False | Some str \<Rightarrow> str \<noteq> [])"

definition handleNoEventCase ::
  "settings \<Rightarrow> collaborators \<Rightarrow> DateTime \<Rightarrow> string option \<Rightarrow> int \<Rightarrow> int option \<Rightarrow> fallback" where
  \<comment> \<open>The last argument is the optional \<open>minute\<close>, whose default is 0.\<close>
  "handleNoEventCase cfg ex date code hour minuteArg =
     (let minute = (case minuteArg of None \<Rightarrow> 0 | Some x \<Rightarrow> x)
      in if returnTimeForNoEventCase cfg
         then (let returnDate =
                     plusMinutes (lx_set ex date hour minute 0)
                       (if lx_isInDST ex date then 60 else 0);
                   returnDate' =
                     (if truthy code then returnDate\<lparr>errorCode := code\<rparr> else returnDate)
               in FallbackTime returnDate')
         else FallbackCode code)"

section \<open>Concrete inputs\<close>

text \<open>
  Inputs at which the solver can be evaluated exactly. The tables \<open>sampleConstants\<close>
  stand for \<open>constants.js\<close> with the sun held at apparent longitude 270 degrees under
  an obliquity of 30 degrees and no nutation, so that every angle has an exact sine and
  cosine: the declination is -30 degrees and the right ascension 270 degrees at
  every \<open>T\<close>. \<open>utcCollaborators\<close> are the collaborators for dates in the zone UTC, with
  \<open>DeltaT\<close> fixed at 64 seconds.
\<close>

definition sampleConstants :: constants where
  "sampleConstants =
     \<lparr>const_meanObliquityOfEcliptic = [29.99744],
      const_nutations = (\<lambda>i j. 0),
      const_moonArgumentOfLatitude = [],
      const_moonAscendingNodeLongitude = [],
      const_moonMeanAnomaly = [],
      const_moonMeanElongation = [],
      const_sunMeanAnomaly = [],
      const_sunMeanLongitude = [270.00569]\<rparr>"

definition utcCollaborators :: collaborators where
  "utcCollaborators =
     \<lparr>tc_DeltaT = (\<lambda>d. 64),
      tc_datetimeToT = (\<lambda>d. (of_int (ts d) / 86400000 + 2440587.5 - 2451545) / 36525),
      lx_offset = (\<lambda>d. 0),
      lx_isInDST = (\<lambda>d. False),
      lx_set = (\<lambda>d h mi s.
        \<lparr>ts = (ts d div 86400000) * 86400000 + ((h * 60 + mi) * 60 + s) * 1000 +
                ts d mod 1000,
         zone = zone d, errorCode = None\<rparr>),
      lx_keepLocalTimeUTC = (\<lambda>d. \<lparr>ts = ts d, zone = ''UTC'', errorCode = None\<rparr>)\<rparr>"

definition newYear2000 :: DateTime where
  \<comment> \<open>2000-01-01T00:00:00.000 in the zone UTC.\<close>
  "newYear2000 = \<lparr>ts = 946684800000, zone = ''UTC'', errorCode = None\<rparr>"

section \<open>What a caller can observe\<close>

text \<open>
  The classification that the result of \<open>handleNoEventCase\<close> carries: the property
  \<open>errorCode\<close> of a returned time, or the returned code itself.
\<close>

definition observedCode :: "fallback \<Rightarrow> string option" where
  "observedCode r = (case r of FallbackTime d \<Rightarrow> errorCode d | FallbackCode v \<Rightarrow> v)"

section \<open>Degrees, reduced angles and polynomials\<close>

lemma sind_0: "sind 0 = 0" by (simp add: sind_def deg2rad_def)
lemma cosd_0: "cosd 0 = 1" by (simp add: cosd_def deg2rad_def)
lemma deg2rad_30: "deg2rad 30 = pi / 6" by (simp add: deg2rad_def)
lemma deg2rad_270: "deg2rad 270 = 3 / 2 * pi" by (simp add: deg2rad_def)
lemma sind_30: "sind 30 = 1 / 2"
  unfolding sind_def deg2rad_30 by (rule sin_30)
lemma cosd_30: "cosd 30 = sqrt 3 / 2"
  unfolding cosd_def deg2rad_30 by (rule cos_30)
lemma sind_270: "sind 270 = - 1"
  unfolding sind_def deg2rad_270 by (rule sin_3over2_pi)
lemma cosd_270: "cosd 270 = 0"
  unfolding cosd_def deg2rad_270 by (rule cos_3over2_pi)

lemma deg2rad_reduceAngle:
  "deg2rad (reduceAngle x) = deg2rad x + (2 * pi) * of_int (- \<lfloor>x / 360\<rfloor>)"
  by (simp add: deg2rad_def reduceAngle_def field_simps)

lemma sind_reduceAngle: "sind (reduceAngle x) = sind x"
  unfolding sind_def deg2rad_reduceAngle
  by (simp only: sin_add sin_int_2pin cos_int_2pin)

lemma cosd_reduceAngle: "cosd (reduceAngle x) = cosd x"
  unfolding cosd_def deg2rad_reduceAngle
  by (simp only: cos_add sin_int_2pin cos_int_2pin)

lemma reduceAngle_range: "0 \<le> reduceAngle x \<and> reduceAngle x < 360"
proof -
  have "of_int \<lfloor>x / 360\<rfloor> \<le> x / 360" "x / 360 < of_int \<lfloor>x / 360\<rfloor> + 1" by linarith+
  then show ?thesis unfolding reduceAngle_def by (simp add: field_simps)
qed

lemma reduceAngle_id: "0 \<le> x \<Longrightarrow> x < 360 \<Longrightarrow> reduceAngle x = x"
proof -
  assume "0 \<le> x" "x < 360"
  then have "\<lfloor>x / 360\<rfloor> = 0" by (simp add: floor_eq_iff)
  then show ?thesis by (simp add: reduceAngle_def)
qed

lemma polynomial_Nil: "polynomial x [] = 0" by (simp add: polynomial_def)
lemma polynomial_single: "polynomial x [a] = a" by (simp add: polynomial_def)


lemma sind_minus: "sind (- x) = - sind x" by (simp add: sind_def deg2rad_def)
lemma cosd_minus: "cosd (- x) = cosd x" by (simp add: cosd_def deg2rad_def)
lemma deg2rad_60: "deg2rad 60 = pi / 3" by (simp add: deg2rad_def)
lemma sind_60: "sind 60 = sqrt 3 / 2" unfolding sind_def deg2rad_60 by (rule sin_60)
lemma cosd_60: "cosd 60 = 1 / 2" unfolding cosd_def deg2rad_60 by (rule cos_60)

lemma rad2deg_arccos_range:
  assumes "- 1 \<le> y" "y \<le> 1"
  shows "0 \<le> rad2deg (arccos y) \<and> rad2deg (arccos y) \<le> 180"
proof -
  from assms have "0 \<le> arccos y" "arccos y \<le> pi" by (simp_all add: arccos_lbound arccos_ubound)
  then show ?thesis by (simp add: rad2deg_def field_simps)
qed

lemma sunRiseSetRun_throws:
  assumes "approxLocalHourAngle phi
             (sunApparentDeclination c
                (tc_datetimeToT ex (lx_keepLocalTimeUTC ex (lx_set ex datetime 0 0 0)) -
                 tc_DeltaT ex (lx_keepLocalTimeUTC ex (lx_set ex datetime 0 0 0)) /
                   (3600 * 24 * 36525)))
             (case offsetArg of None \<Rightarrow> 50 / 60 | Some x \<Rightarrow> x) = Inl thrown"
  shows "sunRiseSetRun cfg c ex datetime phi L flag offsetArg = (Throws thrown, 0)"
  using assms by (simp add: sunRiseSetRun_def Let_def)

lemma sin_product_range: "- 1 \<le> sin a * sin b \<and> sin a * sin b \<le> (1::real)"
proof -
  have "\<bar>sin a * sin b\<bar> \<le> 1"
    unfolding abs_mult using abs_sin_le_one [of a] abs_sin_le_one [of b]
    by (metis abs_ge_zero mult_le_one)
  then show ?thesis by linarith
qed

lemma sunApparentDeclination_range:
  "- 90 \<le> sunApparentDeclination c T \<and> sunApparentDeclination c T \<le> 90"
proof -
  define y where "y = sind (trueObliquityOfEcliptic c T + 0.00256 * cosd (moonAscendingNodeLongitude c T)) *
                      sind (sunApparentLongitude c T)"
  have "- 1 \<le> y \<and> y \<le> 1" unfolding y_def sind_def by (rule sin_product_range)
  then have "- (pi / 2) \<le> arcsin y" "arcsin y \<le> pi / 2"
    using arcsin_lbound [of y] arcsin_ubound [of y] by blast+
  then have "- 90 \<le> rad2deg (arcsin y) \<and> rad2deg (arcsin y) \<le> 90"
    by (simp add: rad2deg_def field_simps)
  then show ?thesis by (simp add: sunApparentDeclination_def Let_def y_def)
qed

section \<open>The solver at the concrete inputs\<close>

lemma foldl_keep: "foldl (\<lambda>acc i. acc) a xs = a"
  by (induction xs) simp_all

lemma sample_Omega: "moonAscendingNodeLongitude sampleConstants T = 0"
  by (simp add: moonAscendingNodeLongitude_def sampleConstants_def polynomial_Nil reduceAngle_def)

lemma sample_M: "sunMeanAnomaly sampleConstants T = 0"
  by (simp add: sunMeanAnomaly_def sampleConstants_def polynomial_Nil reduceAngle_def)

lemma sample_nutO: "nutationInObliquity sampleConstants T = 0"
  by (simp add: nutationInObliquity_def sampleConstants_def Let_def foldl_keep)

lemma sample_nutL: "nutationInLongitude sampleConstants T = 0"
  by (simp add: nutationInLongitude_def sampleConstants_def Let_def foldl_keep)

lemma sample_epsilon: "trueObliquityOfEcliptic sampleConstants T = 29.99744"
  by (simp add: trueObliquityOfEcliptic_def meanObliquityOfEcliptic_def sample_nutO Let_def)
     (simp add: sampleConstants_def polynomial_single)

lemma sample_L0: "sunMeanLongitude sampleConstants T = 270.00569"
  by (simp add: sunMeanLongitude_def sampleConstants_def polynomial_single reduceAngle_id)

lemma sample_lambda: "sunApparentLongitude sampleConstants T = 270"
  by (simp add: sunApparentLongitude_def sunTrueLongitude_def sunEquationOfCenter_def
      sample_Omega sample_M sample_L0 sind_0 Let_def)

lemma sample_delta: "sunApparentDeclination sampleConstants T = - 30"
proof -
  have "arcsin (- (1 / 2)) = - (pi / 6)"
    using arcsin_sin [of "pi / 6"] arcsin_minus [of "1 / 2"] by (simp add: sin_30)
  then show ?thesis
    by (simp add: sunApparentDeclination_def sample_Omega sample_epsilon sample_lambda
        cosd_0 sind_30 sind_270 rad2deg_def Let_def)
qed

lemma sample_alpha: "sunApparentRightAscension sampleConstants T = 270"
proof -
  have "atan2 (cosd 30 * sind 270) (cosd 270) = - (pi / 2)"
    by (simp add: atan2_def cosd_30 sind_270 cosd_270)
  then have "rad2deg (atan2 (cosd 30 * sind 270) (cosd 270)) = - 90"
    by (simp add: rad2deg_def)
  then show ?thesis
    by (simp add: sunApparentRightAscension_def sample_Omega sample_epsilon sample_lambda
        cosd_0 Let_def reduceAngle_def)
qed

lemma sind_default_offset_pos: "0 < sind (5 / 6)"
proof -
  have "0 < deg2rad (5 / 6)" by (simp add: deg2rad_def)
  moreover have "deg2rad (5 / 6) < pi" by (simp add: deg2rad_def)
  ultimately show ?thesis unfolding sind_def by (rule sin_gt_zero)
qed

lemma sample_cosH0_below:
  "(sind (- (5 / 6)) - sind (- 60) * sind (- 30)) / (cosd (- 60) * cosd (- 30)) < - 1"
proof -
  have s3: "0 < sqrt (3::real)" by simp
  have "(sind (- (5 / 6)) - sind (- 60) * sind (- 30)) / (cosd (- 60) * cosd (- 30)) =
        - (4 * sind (5 / 6) / sqrt 3) - 1"
    using s3 by (simp add: sind_minus cosd_minus sind_60 cosd_60 sind_30 cosd_30 field_simps)
  moreover have "0 < 4 * sind (5 / 6) / sqrt 3"
    using sind_default_offset_pos s3 by simp
  ultimately show ?thesis by linarith
qed

lemma sample_cos_nonzero: "cosd (- 60) * cosd (- 30) \<noteq> 0"
  by (simp add: cosd_minus cosd_60 cosd_30)

lemma sample_hour_angle_zero_offset: "approxLocalHourAngle 0 (- 30) 0 = Inr 90"
  by (simp add: approxLocalHourAngle_def sind_0 cosd_0 rad2deg_def Let_def)

lemma sample_midnight:
  "lx_keepLocalTimeUTC utcCollaborators (lx_set utcCollaborators newYear2000 0 0 0) = newYear2000"
  by (simp add: utcCollaborators_def newYear2000_def)

lemma sample_T: "tc_datetimeToT utcCollaborators newYear2000 = - 1 / 73050"
  by (simp add: utcCollaborators_def newYear2000_def)

lemma sample_DeltaT: "tc_DeltaT utcCollaborators d = 64"
  by (simp add: utcCollaborators_def)

lemma sample_offset: "lx_offset utcCollaborators d = 0"
  by (simp add: utcCollaborators_def)

lemma sample_interpolatedRa: "interpolatedRa sampleConstants T n = 270"
  by (simp add: interpolatedRa_def sample_alpha interpolateFromThree_def recenter_def Let_def
      reduceAngle_def)

lemma sample_Theta0:
  "apparentSiderealTimeGreenwich sampleConstants T = reduceAngle (meanSiderealTimeGreenwich T)"
  by (simp add: apparentSiderealTimeGreenwich_def sample_nutL Let_def)

lemma sample_sunTransit_ex:
  "\<exists>m. \<lfloor>m * 3600 * 24 + 0.5\<rfloor> = 40696 \<and>
       (\<forall>cfg. sunTransit cfg sampleConstants utcCollaborators newYear2000 0 =
                transitLocalize cfg newYear2000 ''UTC'' m)"
proof -
  define Theta0 where "Theta0 = reduceAngle (meanSiderealTimeGreenwich (- 1 / 73050))"
  define m1 where "m1 = normalizeM ((270 - 0 - Theta0) / 360) 0"
  define m2 where "m2 = m1 + sunTransitCorrection sampleConstants (- 1 / 73050) Theta0 64 0 m1"
  have "\<lfloor>m2 * 3600 * 24 + 0.5\<rfloor> = 40696"
    by (simp add: m2_def m1_def Theta0_def sunTransitCorrection_def sample_interpolatedRa
        localHourAngle_def normalizeM_def reduceAngle_def meanSiderealTimeGreenwich_def Let_def)
  moreover have "sunTransit cfg sampleConstants utcCollaborators newYear2000 0 =
                   transitLocalize cfg newYear2000 ''UTC'' m2" for cfg
    unfolding sunTransit_def Let_def sample_midnight sample_T sample_DeltaT sample_offset
      sample_Theta0 sample_alpha m2_def m1_def Theta0_def
    by (simp add: newYear2000_def)
  ultimately show ?thesis by blast
qed

section \<open>The correction loop\<close>

lemma riseSetLoop_stop:
  "\<not> (\<bar>DeltaM\<bar> > 0.0001 \<and> counter < 3) \<Longrightarrow>
   riseSetLoop c T Theta0 DeltaT phi L offset m DeltaM counter = (m, DeltaM, counter)"
  by (subst riseSetLoop.simps) auto

lemma riseSetLoop_step:
  "\<bar>DeltaM\<bar> > 0.0001 \<Longrightarrow> counter < 3 \<Longrightarrow>
   riseSetLoop c T Theta0 DeltaT phi L offset m DeltaM counter =
     riseSetLoop c T Theta0 DeltaT phi L offset
       (m + sunRiseSetCorrection c T Theta0 DeltaT phi L m offset)
       (sunRiseSetCorrection c T Theta0 DeltaT phi L m offset) (counter + 1)"
  by (subst riseSetLoop.simps) (simp add: Let_def)

lemma riseSetLoop_counter_le:
  "counter \<le> 3 \<Longrightarrow> snd (snd (riseSetLoop c T Theta0 DeltaT phi L offset m DeltaM counter)) \<le> 3"
proof (induction c T Theta0 DeltaT phi L offset m DeltaM counter rule: riseSetLoop.induct)
  case (1 c T Theta0 DeltaT phi L offset m DeltaM counter)
  show ?case
  proof (cases "\<bar>DeltaM\<bar> > 0.0001 \<and> counter < 3")
    case True
    then have "counter + 1 \<le> 3" by simp
    with 1(1) True show ?thesis
      by (simp add: riseSetLoop_step)
  next
    case False
    with 1(2) show ?thesis by (simp add: riseSetLoop_stop)
  qed
qed

lemma riseSetLoop_unrolled:
  "riseSetLoop c T Theta0 DeltaT phi L offset m 1 0 =
     (let d1 = sunRiseSetCorrection c T Theta0 DeltaT phi L m offset; m1 = m + d1
      in if \<bar>d1\<bar> \<le> 0.0001 then (m1, d1, 1)
         else let d2 = sunRiseSetCorrection c T Theta0 DeltaT phi L m1 offset; m2 = m1 + d2
              in if \<bar>d2\<bar> \<le> 0.0001 then (m2, d2, 2)
                 else let d3 = sunRiseSetCorrection c T Theta0 DeltaT phi L m2 offset
                      in (m2 + d3, d3, 3))"
proof -
  define d1 where "d1 = sunRiseSetCorrection c T Theta0 DeltaT phi L m offset"
  define d2 where "d2 = sunRiseSetCorrection c T Theta0 DeltaT phi L (m + d1) offset"
  define d3 where "d3 = sunRiseSetCorrection c T Theta0 DeltaT phi L (m + d1 + d2) offset"
  have s1: "riseSetLoop c T Theta0 DeltaT phi L offset m 1 0 =
            riseSetLoop c T Theta0 DeltaT phi L offset (m + d1) d1 1"
    using riseSetLoop_step [of 1 0 c T Theta0 DeltaT phi L offset m] by (simp add: d1_def)
  have s2: "riseSetLoop c T Theta0 DeltaT phi L offset (m + d1) d1 1 =
            (if \<bar>d1\<bar> \<le> 0.0001 then (m + d1, d1, 1)
             else riseSetLoop c T Theta0 DeltaT phi L offset (m + d1 + d2) d2 2)"
    using riseSetLoop_step [of d1 1 c T Theta0 DeltaT phi L offset "m + d1"]
          riseSetLoop_stop [of d1 1 c T Theta0 DeltaT phi L offset "m + d1"]
    by (auto simp: d2_def numeral_2_eq_2)
  have s3: "riseSetLoop c T Theta0 DeltaT phi L offset (m + d1 + d2) d2 2 =
            (if \<bar>d2\<bar> \<le> 0.0001 then (m + d1 + d2, d2, 2)
             else riseSetLoop c T Theta0 DeltaT phi L offset (m + d1 + d2 + d3) d3 3)"
    using riseSetLoop_step [of d2 2 c T Theta0 DeltaT phi L offset "m + d1 + d2"]
          riseSetLoop_stop [of d2 2 c T Theta0 DeltaT phi L offset "m + d1 + d2"]
    by (auto simp: d3_def numeral_2_eq_2 numeral_3_eq_3)
  have s4: "riseSetLoop c T Theta0 DeltaT phi L offset (m + d1 + d2 + d3) d3 3 =
            (m + d1 + d2 + d3, d3, 3)"
    by (rule riseSetLoop_stop) simp
  show ?thesis
    unfolding Let_def d1_def [symmetric] d2_def [symmetric] d3_def [symmetric]
    by (simp only: s1 s2 s3 s4)
qed

lemma sunRiseSetRun_counter_le:
  "snd (sunRiseSetRun cfg c ex datetime phi L flag offsetArg) \<le> 3"
proof -
  have "snd (case riseSetLoop c T Theta0 DeltaT phi L offset m 1 0 of
               (m', DeltaM, counter) \<Rightarrow> (ReturnsTime (riseSetLocalize cfg s z m'), counter)) \<le> 3"
    for T Theta0 DeltaT offset m s z
    using riseSetLoop_counter_le [of 0 c T Theta0 DeltaT phi L offset m 1]
    by (simp add: case_prod_beta)
  then show ?thesis
    by (simp add: sunRiseSetRun_def Let_def split: sum.split)
qed

section \<open>The event time solver\<close>

text \<open>
  C1. The end of \<open>sunRiseSet\<close> at the day fraction \<open>m = -1/4\<close>, for 0h UTC of
  2000-01-01 and no rounding to the minute: the returned instant is 21600 seconds after
  0h UTC, where \<open>round(m * 86400) = -21600\<close> asks for 21600 seconds before it. The
  \<open>else\<close> branch subtracts \<open>floor(m * 86400 + 0.5)\<close>, which is negative. The end of
  \<open>sunTransit\<close> adds the same number for every \<open>m\<close> and returns the earlier instant.
  In general, without the rounding to the minute, \<open>sunTransit\<close> moves 0h UTC by
  \<open>floor(m * 86400 + 0.5)\<close> seconds for every \<open>m\<close>, and \<open>sunRiseSet\<close> does so for
  \<open>m > 0\<close> and moves it by the opposite number otherwise.
\<close>

theorem riseSet_localize_negative_fraction:
  "riseSetLocalize \<lparr>roundToNearestMinute = False, returnTimeForNoEventCase = False\<rparr>
       newYear2000 ''Pacific/Auckland'' (- 1 / 4) =
     \<lparr>ts = 946684800000 + 21600000, zone = ''Pacific/Auckland'', errorCode = None\<rparr> \<and>
   transitLocalize \<lparr>roundToNearestMinute = False, returnTimeForNoEventCase = False\<rparr>
       newYear2000 ''Pacific/Auckland'' (- 1 / 4) =
     \<lparr>ts = 946684800000 - 21600000, zone = ''Pacific/Auckland'', errorCode = None\<rparr> \<and>
   \<lfloor>(- 1 / 4 :: real) * 86400 + 0.5\<rfloor> = - 21600 \<and>
   riseSetLocalize \<lparr>roundToNearestMinute = False, returnTimeForNoEventCase = False\<rparr>
       suntime timezone m =
     \<lparr>ts = ts suntime +
            1000 * (if m > 0 then \<lfloor>m * 86400 + 0.5\<rfloor> else - \<lfloor>m * 86400 + 0.5\<rfloor>),
      zone = timezone, errorCode = None\<rparr> \<and>
   transitLocalize \<lparr>roundToNearestMinute = False, returnTimeForNoEventCase = False\<rparr>
       suntime timezone m =
     \<lparr>ts = ts suntime + 1000 * \<lfloor>m * 86400 + 0.5\<rfloor>, zone = timezone, errorCode = None\<rparr>"
  by (simp add: riseSetLocalize_def transitLocalize_def newYear2000_def plusSeconds_def
      minusSeconds_def setZone_def mult.assoc)

text \<open>
  C2. The domain check of \<open>approxLocalHourAngle\<close>, where the divisor
  \<open>cosd phi * cosd delta\<close> does not vanish: \<open>SUN_HIGH\<close> is thrown exactly when the
  argument of the arc cosine is below -1, \<open>SUN_LOW\<close> exactly when it is above 1, and an
  argument in [-1, 1] gives an hour angle in [0, 180]. In \<open>sunRiseSet\<close> the check is
  made on the declination at 0h TD, and a throw ends the call with no evaluation of the
  correction, whatever the flag.
\<close>

theorem approxLocalHourAngle_domain_check:
  fixes phi delta offset :: real and ex :: collaborators and datetime :: DateTime
  defines "cosH0 \<equiv> (sind (- offset) - sind phi * sind delta) / (cosd phi * cosd delta)"
  defines "TD \<equiv> tc_datetimeToT ex (lx_keepLocalTimeUTC ex (lx_set ex datetime 0 0 0)) -
                 tc_DeltaT ex (lx_keepLocalTimeUTC ex (lx_set ex datetime 0 0 0)) /
                   (3600 * 24 * 36525)"
  assumes "cosd phi * cosd delta \<noteq> 0"
  shows "(approxLocalHourAngle phi delta offset = Inl noEventCodes_SUN_HIGH \<longleftrightarrow> cosH0 < - 1) \<and>
         (approxLocalHourAngle phi delta offset = Inl noEventCodes_SUN_LOW \<longleftrightarrow> cosH0 > 1) \<and>
         (- 1 \<le> cosH0 \<and> cosH0 \<le> 1 \<longrightarrow>
            (\<exists>H0. approxLocalHourAngle phi delta offset = Inr H0 \<and> 0 \<le> H0 \<and> H0 \<le> 180)) \<and>
         (delta = sunApparentDeclination c TD \<and> (cosH0 < - 1 \<or> cosH0 > 1) \<longrightarrow>
            sunRiseSetRun cfg c ex datetime phi L flag (Some offset) =
              (Throws (if cosH0 < - 1 then noEventCodes_SUN_HIGH else noEventCodes_SUN_LOW), 0))"
proof -
  have hi: "approxLocalHourAngle phi delta offset = Inl noEventCodes_SUN_HIGH \<longleftrightarrow> cosH0 < - 1"
    by (simp add: approxLocalHourAngle_def cosH0_def Let_def
        noEventCodes_SUN_HIGH_def noEventCodes_SUN_LOW_def)
  have lo: "approxLocalHourAngle phi delta offset = Inl noEventCodes_SUN_LOW \<longleftrightarrow> cosH0 > 1"
    by (simp add: approxLocalHourAngle_def cosH0_def Let_def
        noEventCodes_SUN_HIGH_def noEventCodes_SUN_LOW_def)
  have mid: "\<exists>H0. approxLocalHourAngle phi delta offset = Inr H0 \<and> 0 \<le> H0 \<and> H0 \<le> 180"
    if "- 1 \<le> cosH0" "cosH0 \<le> 1"
  proof -
    from that have "approxLocalHourAngle phi delta offset = Inr (rad2deg (arccos cosH0))"
      by (simp add: approxLocalHourAngle_def cosH0_def Let_def)
    with rad2deg_arccos_range [OF that] show ?thesis by simp
  qed
  have run: "sunRiseSetRun cfg c ex datetime phi L flag (Some offset) =
              (Throws (if cosH0 < - 1 then noEventCodes_SUN_HIGH else noEventCodes_SUN_LOW), 0)"
    if d: "delta = sunApparentDeclination c TD" and out: "cosH0 < - 1 \<or> cosH0 > 1"
  proof -
    from out hi lo have "approxLocalHourAngle phi delta offset =
        Inl (if cosH0 < - 1 then noEventCodes_SUN_HIGH else noEventCodes_SUN_LOW)"
      by auto
    then show ?thesis
      unfolding d TD_def by (intro sunRiseSetRun_throws) simp
  qed
  from hi lo mid run show ?thesis by blast
qed

theorem approxLocalHourAngle_domain_check_witness:
  "(\<exists>H0. approxLocalHourAngle 0 0 0 = Inr H0 \<and> 0 \<le> H0 \<and> H0 \<le> 180) \<and>
   sunRiseSetRun \<lparr>roundToNearestMinute = False, returnTimeForNoEventCase = False\<rparr>
       sampleConstants utcCollaborators newYear2000 (- 60) 0 ''RISE'' (Some (5 / 6)) =
     (Throws noEventCodes_SUN_HIGH, 0)"
  using approxLocalHourAngle_domain_check [where phi = 0 and delta = 0 and offset = 0]
    approxLocalHourAngle_domain_check [where phi = "- 60" and delta = "- 30" and offset = "5 / 6"
      and c = sampleConstants and ex = utcCollaborators and datetime = newYear2000
      and cfg = "\<lparr>roundToNearestMinute = False, returnTimeForNoEventCase = False\<rparr>"
      and L = 0 and flag = "''RISE''"]
    sample_cosH0_below sample_cos_nonzero
  by (simp add: sample_delta sind_0 cosd_0)

text \<open>
  C3. The loop of \<open>sunRiseSet\<close>, entered with \<open>DeltaM = 1\<close> and \<open>counter = 0\<close>, makes
  one correction, a second one only if the first is above 0.0001 in magnitude, a third one
  only if the second is too, and no fourth: a call of \<open>sunRiseSet\<close> evaluates the
  correction at most 3 times. \<open>sunTransit\<close> adds the one correction \<open>-H / 360\<close> to the
  normalized fraction, without a loop. Both functions are total.
\<close>

theorem correction_steps_bounded:
  fixes ex :: collaborators and datetime :: DateTime and c :: constants and L' :: real
  defines "transit \<equiv> lx_keepLocalTimeUTC ex (lx_set ex datetime 0 0 0)"
  defines "m1 \<equiv> normalizeM
      ((sunApparentRightAscension c
          (tc_datetimeToT ex transit - tc_DeltaT ex transit / (3600 * 24 * 36525)) -
        L' - apparentSiderealTimeGreenwich c (tc_datetimeToT ex transit)) / 360)
      (lx_offset ex datetime)"
  shows
  "riseSetLoop c T Theta0 DeltaT phi L offset m 1 0 =
     (let d1 = sunRiseSetCorrection c T Theta0 DeltaT phi L m offset; m1 = m + d1
      in if \<bar>d1\<bar> \<le> 0.0001 then (m1, d1, 1)
         else let d2 = sunRiseSetCorrection c T Theta0 DeltaT phi L m1 offset; m2 = m1 + d2
              in if \<bar>d2\<bar> \<le> 0.0001 then (m2, d2, 2)
                 else let d3 = sunRiseSetCorrection c T Theta0 DeltaT phi L m2 offset
                      in (m2 + d3, d3, 3)) \<and>
   snd (sunRiseSetRun cfg c ex datetime phi L flag offsetArg) \<le> 3 \<and>
   sunTransitCorrection c T Theta0 DeltaT L m =
     - localHourAngle (Theta0 + 360.985647 * m) L (interpolatedRa c T (m + DeltaT / 864000)) / 360 \<and>
   sunTransit cfg c ex datetime L' =
     transitLocalize cfg transit (zone datetime)
       (m1 + sunTransitCorrection c (tc_datetimeToT ex transit)
               (apparentSiderealTimeGreenwich c (tc_datetimeToT ex transit))
               (tc_DeltaT ex transit) L' m1)"
  using riseSetLoop_unrolled [of c T Theta0 DeltaT phi L offset m]
    sunRiseSetRun_counter_le [of cfg c ex datetime phi L flag offsetArg]
  by (simp add: sunTransitCorrection_def sunTransit_def Let_def transit_def m1_def)

text \<open>
  C5, as the code has it. The apparent declination lies in [-90, 90] and is returned
  as it is. \<open>interpolatedDec\<close> interpolates three such declinations without the
  pre-correction for the wraparound, and then does reduce the result into [0, 360), which
  changes neither its sine nor its cosine. \<open>interpolatedRa\<close> interpolates with the
  pre-correction, and reduces the result.
\<close>

theorem declination_and_interpolation:
  "- 90 \<le> sunApparentDeclination c T \<and> sunApparentDeclination c T \<le> 90 \<and>
   interpolatedDec c T n =
     reduceAngle (interpolateFromThree (sunApparentDeclination c (T - 1 / 36525))
        (sunApparentDeclination c T) (sunApparentDeclination c (T + 1 / 36525)) n False) \<and>
   0 \<le> interpolatedDec c T n \<and> interpolatedDec c T n < 360 \<and>
   sind (interpolatedDec c T n) =
     sind (interpolateFromThree (sunApparentDeclination c (T - 1 / 36525))
        (sunApparentDeclination c T) (sunApparentDeclination c (T + 1 / 36525)) n False) \<and>
   cosd (interpolatedDec c T n) =
     cosd (interpolateFromThree (sunApparentDeclination c (T - 1 / 36525))
        (sunApparentDeclination c T) (sunApparentDeclination c (T + 1 / 36525)) n False) \<and>
   interpolatedRa c T n =
     reduceAngle (interpolateFromThree (sunApparentRightAscension c (T - 1 / 36525))
        (sunApparentRightAscension c T) (sunApparentRightAscension c (T + 1 / 36525)) n True) \<and>
   interpolateFromThree y1 y2 y3 n False =
     y2 + (n / 2) * ((y2 - y1) + (y3 - y2) + n * ((y3 - y2) - (y2 - y1))) \<and>
   interpolateFromThree y1 y2 y3 n True =
     interpolateFromThree (recenter y2 y1) y2 (recenter y2 y3) n False"
  using sunApparentDeclination_range [of c T]
  by (simp add: interpolatedDec_def interpolatedRa_def Let_def reduceAngle_range
      sind_reduceAngle cosd_reduceAngle interpolateFromThree_def)

text \<open>
  C5, as claimed, fails: with the sun at declination -30 degrees the interpolated
  declination is -30, and \<open>interpolatedDec\<close> returns it folded to 330.
\<close>

theorem interpolatedDec_folds_declination:
  "interpolateFromThree (sunApparentDeclination sampleConstants (0 - 1 / 36525))
     (sunApparentDeclination sampleConstants 0)
     (sunApparentDeclination sampleConstants (0 + 1 / 36525)) (1 / 2) False = - 30 \<and>
   interpolatedDec sampleConstants 0 (1 / 2) = 330"
  by (simp add: interpolatedDec_def sample_delta interpolateFromThree_def Let_def reduceAngle_def)

text \<open>
  C6, as the code has it. \<open>normalizeM\<close> adds one day when \<open>m + utcOffset / 1440\<close> is
  negative, subtracts one day when it is above 1, and returns \<open>m\<close> when it lies in
  [0, 1], the value 1 included.
\<close>

theorem normalizeM_cases:
  "(m + of_int utcOffset / 1440 < 0 \<longrightarrow> normalizeM m utcOffset = m + 1) \<and>
   (m + of_int utcOffset / 1440 > 1 \<longrightarrow> normalizeM m utcOffset = m - 1) \<and>
   (0 \<le> m + of_int utcOffset / 1440 \<and> m + of_int utcOffset / 1440 \<le> 1 \<longrightarrow>
      normalizeM m utcOffset = m)"
  by (auto simp: normalizeM_def Let_def)

theorem normalizeM_cases_witness:
  "((- 3 / 4 :: real) + of_int 120 / 1440 < 0 \<and> normalizeM (- 3 / 4) 120 = - 3 / 4 + 1) \<and>
   ((3 / 4 :: real) + of_int 540 / 1440 > 1 \<and> normalizeM (3 / 4) 540 = 3 / 4 - 1) \<and>
   (0 \<le> (1 / 4 :: real) + of_int 60 / 1440 \<and> (1 / 4 :: real) + of_int 60 / 1440 \<le> 1 \<and>
      normalizeM (1 / 4) 60 = 1 / 4)"
  using normalizeM_cases [of "- 3 / 4" 120] normalizeM_cases [of "3 / 4" 540]
    normalizeM_cases [of "1 / 4" 60]
  by simp

text \<open>
  C6, as claimed, fails: at \<open>m = 1\<close> and offset 0 the local fraction is 1, which is
  not in [0, 1), and \<open>normalizeM\<close> returns 1 and not 0.
\<close>

theorem normalizeM_at_one: "(1::real) + of_int 0 / 1440 \<ge> 1 \<and> normalizeM 1 0 \<noteq> 1 - 1"
  by (simp add: normalizeM_def)

text \<open>
  C7. For the codes \<open>SUN_HIGH\<close> and \<open>SUN_LOW\<close>, the result of \<open>handleNoEventCase\<close>
  carries the code whatever the flag. With \<open>returnTimeForNoEventCase\<close> it is the date
  set to the hour and minute (0 when no minute is given) and second 0, moved by 60 minutes
  if and only if the date is in daylight-saving time, with the code as its
  \<open>errorCode\<close>; without the flag it is the code itself.
\<close>

theorem handleNoEventCase_observable:
  assumes "code = noEventCodes_SUN_HIGH \<or> code = noEventCodes_SUN_LOW"
  shows "observedCode (handleNoEventCase cfg ex date (Some code) hour minuteArg) = Some code \<and>
     (returnTimeForNoEventCase cfg \<longrightarrow>
        handleNoEventCase cfg ex date (Some code) hour minuteArg =
          FallbackTime
            \<lparr>ts = ts (lx_set ex date hour (case minuteArg of None \<Rightarrow> 0 | Some x \<Rightarrow> x) 0) +
                    (if lx_isInDST ex date then 60 * 60000 else 0),
             zone = zone (lx_set ex date hour (case minuteArg of None \<Rightarrow> 0 | Some x \<Rightarrow> x) 0),
             errorCode = Some code\<rparr>) \<and>
     (\<not> returnTimeForNoEventCase cfg \<longrightarrow>
        handleNoEventCase cfg ex date (Some code) hour minuteArg = FallbackCode (Some code))"
proof -
  from assms have "truthy (Some code)"
    by (auto simp: truthy_def noEventCodes_SUN_HIGH_def noEventCodes_SUN_LOW_def)
  then show ?thesis
    by (simp add: handleNoEventCase_def observedCode_def plusMinutes_def Let_def)
qed

theorem handleNoEventCase_observable_witness:
  "(noEventCodes_SUN_LOW = noEventCodes_SUN_HIGH \<or> noEventCodes_SUN_LOW = noEventCodes_SUN_LOW) \<and>
   handleNoEventCase \<lparr>roundToNearestMinute = False, returnTimeForNoEventCase = True\<rparr>
       utcCollaborators newYear2000 (Some noEventCodes_SUN_LOW) 6 None =
     FallbackTime \<lparr>ts = 946684800000 + 6 * 3600000, zone = ''UTC'',
                   errorCode = Some noEventCodes_SUN_LOW\<rparr> \<and>
   handleNoEventCase \<lparr>roundToNearestMinute = False, returnTimeForNoEventCase = False\<rparr>
       utcCollaborators newYear2000 (Some noEventCodes_SUN_LOW) 6 None =
     FallbackCode (Some noEventCodes_SUN_LOW)"
  using handleNoEventCase_observable [where code = noEventCodes_SUN_LOW
      and cfg = "\<lparr>roundToNearestMinute = False, returnTimeForNoEventCase = True\<rparr>"
      and ex = utcCollaborators and date = newYear2000 and hour = 6 and minuteArg = None]
    handleNoEventCase_observable [where code = noEventCodes_SUN_LOW
      and cfg = "\<lparr>roundToNearestMinute = False, returnTimeForNoEventCase = False\<rparr>"
      and ex = utcCollaborators and date = newYear2000 and hour = 6 and minuteArg = None]
  by (simp add: utcCollaborators_def newYear2000_def)

text \<open>
  C8, as the code has it. With a flag that is neither \<open>RISE\<close> nor \<open>SET\<close>,
  \<open>sunRiseSet\<close> evaluates no correction and returns no time: it returns \<open>false\<close> when
  the domain check of the hour angle passes, and throws the code of the check when it
  fails, since the hour angle is computed before the flag is read.
\<close>

theorem sunRiseSet_unrecognized_flag:
  fixes ex :: collaborators and datetime :: DateTime and c :: constants
    and offsetArg :: "real option" and phi :: real
  defines "TD \<equiv> tc_datetimeToT ex (lx_keepLocalTimeUTC ex (lx_set ex datetime 0 0 0)) -
                 tc_DeltaT ex (lx_keepLocalTimeUTC ex (lx_set ex datetime 0 0 0)) /
                   (3600 * 24 * 36525)"
  defines "H0 \<equiv> approxLocalHourAngle phi (sunApparentDeclination c TD)
                   (case offsetArg of None \<Rightarrow> 50 / 60 | Some x \<Rightarrow> x)"
  assumes "flag \<noteq> ''RISE''" and "flag \<noteq> ''SET''"
  shows "sunRiseSetRun cfg c ex datetime phi L flag offsetArg =
           (case H0 of Inl thrown \<Rightarrow> (Throws thrown, 0) | Inr x \<Rightarrow> (ReturnsFalse, 0)) \<and>
         snd (sunRiseSetRun cfg c ex datetime phi L flag offsetArg) = 0 \<and>
         (\<forall>d. sunRiseSet cfg c ex datetime phi L flag offsetArg \<noteq> ReturnsTime d)"
  using assms(3,4) unfolding H0_def TD_def sunRiseSet_def
  by (simp add: sunRiseSetRun_def Let_def split: sum.split)

theorem sunRiseSet_unrecognized_flag_witness:
  "''NOON'' \<noteq> ''RISE'' \<and> ''NOON'' \<noteq> ''SET'' \<and>
   sunRiseSetRun \<lparr>roundToNearestMinute = False, returnTimeForNoEventCase = False\<rparr>
       sampleConstants utcCollaborators newYear2000 0 0 ''NOON'' (Some 0) = (ReturnsFalse, 0)"
  using sunRiseSet_unrecognized_flag [where flag = "''NOON''" and c = sampleConstants
      and ex = utcCollaborators and datetime = newYear2000 and phi = 0 and L = 0
      and offsetArg = "Some 0"
      and cfg = "\<lparr>roundToNearestMinute = False, returnTimeForNoEventCase = False\<rparr>"]
  by (simp add: sample_delta sample_hour_angle_zero_offset)

text \<open>
  C8, as claimed, fails: at latitude -60 degrees, declination -30 degrees and the
  default offset the sun never sets, and the call with the flag \<open>NOON\<close> throws
  \<open>SUN_HIGH\<close>, a no-event classification.
\<close>

theorem unrecognized_flag_throws:
  "''NOON'' \<noteq> ''RISE'' \<and> ''NOON'' \<noteq> ''SET'' \<and>
   sunRiseSet \<lparr>roundToNearestMinute = False, returnTimeForNoEventCase = False\<rparr>
       sampleConstants utcCollaborators newYear2000 (- 60) 0 ''NOON'' None =
     Throws noEventCodes_SUN_HIGH"
proof -
  have "approxLocalHourAngle (- 60) (- 30) (50 / 60) = Inl noEventCodes_SUN_HIGH"
    using sample_cosH0_below by (simp add: approxLocalHourAngle_def Let_def)
  then show ?thesis
    by (simp add: sunRiseSet_def sunRiseSetRun_def Let_def sample_delta)
qed

text \<open>
  C9, as the code has it. The results of \<open>sunRiseSet\<close> and \<open>sunTransit\<close> are
  determined by their numeric arguments, the zone of the date, its instant of 0h UTC, its
  offset, the values of \<open>DeltaT\<close> and of the Julian-century conversion at that instant,
  and the module flag \<open>roundToNearestMinute\<close>; the result of \<open>truePhase\<close> by \<open>k\<close>,
  the phase and the value of \<open>kToT\<close> at \<open>k + phase / 4\<close>.
\<close>

theorem solver_results_determined:
  assumes "roundToNearestMinute cfg = roundToNearestMinute cfg'"
    and "lx_keepLocalTimeUTC ex (lx_set ex datetime 0 0 0) = suntime"
    and "lx_keepLocalTimeUTC ex' (lx_set ex' datetime' 0 0 0) = suntime"
    and "tc_DeltaT ex suntime = tc_DeltaT ex' suntime"
    and "tc_datetimeToT ex suntime = tc_datetimeToT ex' suntime"
    and "lx_offset ex datetime = lx_offset ex' datetime'"
    and "zone datetime = zone datetime'"
    and "kToT (k + phase / 4) = kToT' (k + phase / 4)"
  shows "sunRiseSet cfg c ex datetime phi L flag offsetArg =
           sunRiseSet cfg' c ex' datetime' phi L flag offsetArg \<and>
         sunTransit cfg c ex datetime L = sunTransit cfg' c ex' datetime' L \<and>
         truePhase kToT k phase = truePhase kToT' k phase"
proof -
  have loc: "riseSetLocalize cfg s z m = riseSetLocalize cfg' s z m" for s z m
    using assms(1) by (simp add: riseSetLocalize_def)
  have tloc: "transitLocalize cfg s z m = transitLocalize cfg' s z m" for s z m
    using assms(1) by (simp add: transitLocalize_def)
  have "sunRiseSetRun cfg c ex datetime phi L flag offsetArg =
        sunRiseSetRun cfg' c ex' datetime' phi L flag offsetArg"
    by (simp add: sunRiseSetRun_def Let_def case_prod_beta assms(2-7) loc cong: sum.case_cong if_cong)
  moreover have "sunTransit cfg c ex datetime L = sunTransit cfg' c ex' datetime' L"
    by (simp add: sunTransit_def Let_def assms(2-7) tloc)
  moreover have "truePhase kToT k phase = truePhase kToT' k phase"
    by (simp add: truePhase_def Let_def assms(8))
  ultimately show ?thesis by (simp add: sunRiseSet_def)
qed

theorem solver_results_determined_witness:
  "sunRiseSet \<lparr>roundToNearestMinute = False, returnTimeForNoEventCase = False\<rparr>
       sampleConstants utcCollaborators newYear2000 0 0 ''RISE'' None =
   sunRiseSet \<lparr>roundToNearestMinute = False, returnTimeForNoEventCase = True\<rparr>
       sampleConstants utcCollaborators
       \<lparr>ts = 946684800000 + 36000000, zone = ''UTC'', errorCode = Some ''SUN_LOW''\<rparr>
       0 0 ''RISE'' None \<and>
   sunTransit \<lparr>roundToNearestMinute = False, returnTimeForNoEventCase = False\<rparr>
       sampleConstants utcCollaborators newYear2000 0 =
   sunTransit \<lparr>roundToNearestMinute = False, returnTimeForNoEventCase = True\<rparr>
       sampleConstants utcCollaborators
       \<lparr>ts = 946684800000 + 36000000, zone = ''UTC'', errorCode = Some ''SUN_LOW''\<rparr> 0 \<and>
   truePhase (\<lambda>k. k / 1236.85) 0 1 = truePhase (\<lambda>k. if k = 1 / 4 then 1 / 4947.4 else 0) 0 1"
proof -
  let ?later = "\<lparr>ts = 946684800000 + 36000000, zone = ''UTC'', errorCode = Some ''SUN_LOW''\<rparr>"
  have h1: "roundToNearestMinute \<lparr>roundToNearestMinute = False, returnTimeForNoEventCase = False\<rparr> =
            roundToNearestMinute \<lparr>roundToNearestMinute = False, returnTimeForNoEventCase = True\<rparr>"
    by simp
  have h2: "lx_keepLocalTimeUTC utcCollaborators (lx_set utcCollaborators newYear2000 0 0 0) =
            \<lparr>ts = 946684800000, zone = ''UTC'', errorCode = None\<rparr>"
    by (simp add: utcCollaborators_def newYear2000_def)
  have h3: "lx_keepLocalTimeUTC utcCollaborators (lx_set utcCollaborators ?later 0 0 0) =
            \<lparr>ts = 946684800000, zone = ''UTC'', errorCode = None\<rparr>"
    by (simp add: utcCollaborators_def)
  have h6: "lx_offset utcCollaborators newYear2000 = lx_offset utcCollaborators ?later"
    by (simp add: utcCollaborators_def)
  have h7: "zone newYear2000 = zone ?later" by (simp add: newYear2000_def)
  have h8: "(\<lambda>k::real. k / 1236.85 :: real) (0 + 1 / 4) =
            (\<lambda>k::real. if k = 1 / 4 then 1 / 4947.4 else 0 :: real) (0 + 1 / 4)"
    by simp
  show ?thesis
    using solver_results_determined [where
        cfg = "\<lparr>roundToNearestMinute = False, returnTimeForNoEventCase = False\<rparr>" and
        cfg' = "\<lparr>roundToNearestMinute = False, returnTimeForNoEventCase = True\<rparr>" and
        ex = utcCollaborators and ex' = utcCollaborators and datetime = newYear2000 and
        datetime' = ?later and
        suntime = "\<lparr>ts = 946684800000, zone = ''UTC'', errorCode = None\<rparr>" and
        kToT = "\<lambda>k. k / 1236.85" and
        kToT' = "\<lambda>k. if k = 1 / 4 then 1 / 4947.4 else 0" and
        k = 0 and phase = 1 and c = sampleConstants and phi = 0 and L = 0 and
        flag = "''RISE''" and offsetArg = None, OF h1 h2 h3 refl refl h6 h7]
    by simp
qed

text \<open>
  C9, as claimed, fails: two calls of \<open>sunTransit\<close> with the same arguments and the
  same collaborators return 11:18:16 and 11:18:00 when the module flag
  \<open>roundToNearestMinute\<close> is changed between them.
\<close>

theorem sunTransit_depends_on_rounding_flag:
  "sunTransit \<lparr>roundToNearestMinute = False, returnTimeForNoEventCase = False\<rparr>
       sampleConstants utcCollaborators newYear2000 0 =
     \<lparr>ts = 946684800000 + 40696000, zone = ''UTC'', errorCode = None\<rparr> \<and>
   sunTransit \<lparr>roundToNearestMinute = True, returnTimeForNoEventCase = False\<rparr>
       sampleConstants utcCollaborators newYear2000 0 =
     \<lparr>ts = 946684800000 + 40680000, zone = ''UTC'', errorCode = None\<rparr> \<and>
   sunTransit \<lparr>roundToNearestMinute = False, returnTimeForNoEventCase = False\<rparr>
       sampleConstants utcCollaborators newYear2000 0 \<noteq>
   sunTransit \<lparr>roundToNearestMinute = True, returnTimeForNoEventCase = False\<rparr>
       sampleConstants utcCollaborators newYear2000 0"
proof -
  from sample_sunTransit_ex obtain m where
    fl: "\<lfloor>m * 3600 * 24 + 0.5\<rfloor> = 40696" and
    tr: "\<And>cfg. sunTransit cfg sampleConstants utcCollaborators newYear2000 0 =
                transitLocalize cfg newYear2000 ''UTC'' m"
    by blast
  show ?thesis
    unfolding tr transitLocalize_def Let_def fl
    by (simp add: newYear2000_def plusSeconds_def setSecondZeroUTC_def setZone_def)
qed

section \<open>The lunar phase solver\<close>

lemma length_planetaryArguments: "length (planetaryArguments T k) = 15"
  by (simp add: planetaryArguments_def)

text \<open>
  C4. For the phase selectors 0, 1, 2 and 3, \<open>truePhase\<close> is the mean phase at
  \<open>k + phase / 4\<close>, plus the common corrections of the 14 planetary arguments, plus the
  corrections of the phase: the new/full series with the terms of the new moon (0) or of
  the full moon (2), or the quarter series with \<open>W\<close> added for the first quarter (1) and
  subtracted for the last quarter (3). \<open>W\<close> occurs in no other case.
\<close>

theorem truePhase_four_phases:
  "truePhase kToT k 0 =
     (let T = kToT k;
          E = eccentricityCorrection T; M = sunMeanAnomalyK T k;
          MPrime = moonMeanAnomalyK T k; F = moonArgumentOfLatitudeK T k;
          Omega = moonAscendingNodeLongitudeK T k
      in meanPhase T k + commonCorrections (planetaryArguments T k) +
         (newFullSeries E M MPrime F Omega + newMoonSeries E M MPrime F)) \<and>
   truePhase kToT k 1 =
     (let k' = k + 1 / 4; T = kToT k';
          E = eccentricityCorrection T; M = sunMeanAnomalyK T k';
          MPrime = moonMeanAnomalyK T k'; F = moonArgumentOfLatitudeK T k';
          Omega = moonAscendingNodeLongitudeK T k'
      in meanPhase T k' + commonCorrections (planetaryArguments T k') +
         (quarterSeries E M MPrime F Omega + quarterW E M MPrime F)) \<and>
   truePhase kToT k 2 =
     (let k' = k + 2 / 4; T = kToT k';
          E = eccentricityCorrection T; M = sunMeanAnomalyK T k';
          MPrime = moonMeanAnomalyK T k'; F = moonArgumentOfLatitudeK T k';
          Omega = moonAscendingNodeLongitudeK T k'
      in meanPhase T k' + commonCorrections (planetaryArguments T k') +
         (newFullSeries E M MPrime F Omega + fullMoonSeries E M MPrime F)) \<and>
   truePhase kToT k 3 =
     (let k' = k + 3 / 4; T = kToT k';
          E = eccentricityCorrection T; M = sunMeanAnomalyK T k';
          MPrime = moonMeanAnomalyK T k'; F = moonArgumentOfLatitudeK T k';
          Omega = moonAscendingNodeLongitudeK T k'
      in meanPhase T k' + commonCorrections (planetaryArguments T k') +
         (quarterSeries E M MPrime F Omega - quarterW E M MPrime F))"
  by (simp add: truePhase_def newMoonFullMoonCorrections_def quarterCorrections_def Let_def)

text \<open>
  C10. For a phase selector that is none of 0, 1, 2 and 3, \<open>truePhase\<close> returns the mean
  phase at \<open>k + phase / 4\<close> plus the common corrections of the planetary arguments alone:
  neither family of phase-specific corrections is evaluated, and the function has no
  error result.
\<close>

theorem truePhase_other_phase:
  assumes "phase \<notin> {0, 1, 2, 3}"
  shows "truePhase kToT k phase =
           meanPhase (kToT (k + phase / 4)) (k + phase / 4) +
           commonCorrections (planetaryArguments (kToT (k + phase / 4)) (k + phase / 4))"
  using assms by (simp add: truePhase_def Let_def)

theorem truePhase_other_phase_witness:
  "(4::real) \<notin> {0, 1, 2, 3} \<and>
   truePhase (\<lambda>k. k / 1236.85) 0 4 =
     meanPhase (1 / 1236.85) 1 + commonCorrections (planetaryArguments (1 / 1236.85) 1)"
  using truePhase_other_phase [of 4 "\<lambda>k. k / 1236.85" 0] by simp

end
